theory Spec2Isabelle
  imports Main "HOL-Library.Sublist"
begin

section \<open>Python values used by verify.py\<close>

text \<open>
  A Python \<open>str\<close> is a sequence of Unicode code points; a code point is a natural
  number. String literals of the source that are plain ASCII are written with \<open>ascii\<close>.
\<close>

type_synonym codepoint = nat
type_synonym pystr = "codepoint list"

definition ascii :: "string \<Rightarrow> pystr" where
  "ascii s = map of_char s"

text \<open>\<open>sub in s\<close> on two strings: \<open>sub\<close> occurs in \<open>s\<close> as a contiguous block.\<close>

fun py_in :: "pystr \<Rightarrow> pystr \<Rightarrow> bool" where
  "py_in sub [] = (sub = [])"
| "py_in sub (c # cs) = (prefix sub (c # cs) \<or> py_in sub cs)"

text \<open>\<open>s.split("\n")\<close>: the pieces between line feeds (code point 10), never an empty list.\<close>

fun split_from :: "pystr \<Rightarrow> pystr \<Rightarrow> pystr list" where
  "split_from cur [] = [cur]"
| "split_from cur (c # cs) =
     (if c = 10 then cur # split_from [] cs else split_from (cur @ [c]) cs)"

definition split_lines :: "pystr \<Rightarrow> pystr list" where
  "split_lines s = split_from [] s"

text \<open>\<open>sep.join(xs)\<close>.\<close>

fun py_join :: "pystr \<Rightarrow> pystr list \<Rightarrow> pystr" where
  "py_join sep [] = []"
| "py_join sep [x] = x"
| "py_join sep (x # y # ys) = x @ sep @ py_join sep (y # ys)"

text \<open>\<open>str(n)\<close> for an integer: decimal digits, with a minus sign when negative.\<close>

function nat_digits :: "nat \<Rightarrow> pystr" where
  "nat_digits n = (if n < 10 then [48 + n] else nat_digits (n div 10) @ [48 + n mod 10])"
  by pat_completeness auto
termination
  by (relation "measure id") auto

declare nat_digits.simps [simp del]

definition py_str_int :: "int \<Rightarrow> pystr" where
  "py_str_int i = (if i < 0 then 45 # nat_digits (nat (- i)) else nat_digits (nat i))"

text \<open>
  A parsed JSON value, as \<open>response.json()\<close> returns it. An object is an association
  list read with \<open>map_of\<close>; \<open>JNull\<close> is Python's \<open>None\<close>. Numbers are integers.
\<close>

datatype json =
    JNull
  | JBool bool
  | JNum int
  | JStr pystr
  | JArr "json list"
  | JObj "(pystr \<times> json) list"

text \<open>Truth value of a JSON value in a condition (\<open>not result\<close>).\<close>

fun truthy :: "json \<Rightarrow> bool" where
  "truthy JNull = False"
| "truthy (JBool b) = b"
| "truthy (JNum n) = (n \<noteq> 0)"
| "truthy (JStr s) = (s \<noteq> [])"
| "truthy (JArr xs) = (xs \<noteq> [])"
| "truthy (JObj kvs) = (kvs \<noteq> [])"

text \<open>Exceptions that leave \<open>run_verification\<close> uncaught.\<close>

datatype exn = TypeError | KeyError | ReError

text \<open>\<open>for x in v\<close>: the elements of a list, the keys of a dict, the characters of a string.\<close>

fun py_iter :: "json \<Rightarrow> exn + json list" where
  "py_iter (JArr xs) = Inr xs"
| "py_iter (JObj kvs) = Inr (map (\<lambda>kv. JStr (fst kv)) kvs)"
| "py_iter (JStr s) = Inr (map (\<lambda>c. JStr [c]) s)"
| "py_iter _ = Inl TypeError"

text \<open>\<open>v[key]\<close> with a string key: only a dict accepts it.\<close>

fun py_getitem :: "json \<Rightarrow> pystr \<Rightarrow> exn + json" where
  "py_getitem (JObj kvs) key = (case map_of kvs key of None \<Rightarrow> Inl KeyError | Some v \<Rightarrow> Inr v)"
| "py_getitem _ key = Inl TypeError"

section \<open>Library and environment\<close>

text \<open>
  The functions of Python's standard library that the script calls and that are not part
  of the repository are parameters:
  \<^item> \<open>re_compile ic p\<close> is \<open>re.compile(p, re.IGNORECASE)\<close> when \<open>ic\<close> holds and
    \<open>re.compile(p)\<close> otherwise; \<open>None\<close> when the pattern is rejected (\<open>re.error\<close>),
    else the function telling whether \<open>search\<close> finds a match anywhere in its argument;
  \<open>re.search(p, s)\<close> is \<open>re.compile(p).search(s)\<close>;
  \<^item> \<open>isdecimal\<close> is the character class \<open>\d\<close> of a \<open>str\<close> pattern;
  \<^item> \<open>b64decode_utf8 v\<close> is \<open>base64.b64decode(v).decode("utf-8")\<close>, \<open>None\<close> when
    either call raises.
\<close>

record pylib =
  re_compile :: "bool \<Rightarrow> pystr \<Rightarrow> (pystr \<Rightarrow> bool) option"
  isdecimal :: "codepoint \<Rightarrow> bool"
  b64decode_utf8 :: "json \<Rightarrow> pystr option"

text \<open>
  What \<open>requests.get\<close> does: a response with a status code and a body (\<open>None\<close> when
  the body is not JSON, so that \<open>response.json()\<close> raises), or an exception.
\<close>

datatype http_result = Http_Response int "json option" | Http_Exception

type_synonym headers = "(pystr \<times> pystr) list"

text \<open>
  The world outside the process: the environment variables as they are after
  \<open>load_dotenv(".env")\<close>, and the remote API as a function of URL and headers.
\<close>

record world =
  environ :: "string \<Rightarrow> pystr option"
  http_get :: "pystr \<Rightarrow> headers \<Rightarrow> http_result"

section \<open>Configuration\<close>

record target_file =
  path :: pystr
  branch :: pystr

record content_rule =
  rule_type :: pystr
  target :: pystr
  expected :: pystr

record commit_rule =
  msg_pattern :: pystr
  max_commits :: "int option"

record config =
  target_repo :: pystr
  target_file :: target_file
  required_structures :: "pystr list"
  content_rules :: "content_rule list"
  commit_verification :: "commit_rule option"

section \<open>Observable effects\<close>

text \<open>
  One constructor for each \<open>print\<close> of the source, carrying the values the line
  interpolates (the text of a caught exception is left out).
\<close>

datatype msg =
    Banner
  | Start_Line
  | Env_Error_Token
  | Env_Error_Org
  | Env_Ready pystr pystr
  | Api_Not_Found pystr
  | Api_Status pystr int
  | Api_Exception pystr
  | Decode_Error pystr
  | Exist_Start pystr pystr
  | Exist_Fail pystr pystr
  | Exist_Ok pystr
  | Struct_Start nat
  | Struct_Missing pystr
  | Struct_Ok
  | Content_Skip
  | Content_Start nat
  | Content_Rule_Fail pystr pystr
  | Content_Ok
  | Commit_Skip
  | Commit_Start pystr int
  | Commit_Fail
  | Commit_Ok
  | All_Passed
  | Verified_Object pystr
  | Verified_Repo pystr pystr

datatype event = Stdout msg | Stderr msg | Http_Get pystr headers

section \<open>Utility functions\<close>

definition load_env :: "world \<Rightarrow> pystr option \<times> pystr option" where
  "load_env w = (environ w ''GITHUB_TOKEN'', environ w ''GITHUB_ORG'')"

definition build_headers :: "pystr \<Rightarrow> headers" where
  "build_headers github_token =
     [(ascii ''Authorization'', ascii ''Bearer '' @ github_token),
      (ascii ''Accept'', ascii ''application/vnd.github.v3+json'')]"

definition api_url :: "pystr \<Rightarrow> pystr \<Rightarrow> pystr \<Rightarrow> pystr" where
  "api_url org repo endpoint =
     ascii ''https://api.github.com/repos/'' @ org @ ascii ''/'' @ repo @ ascii ''/'' @ endpoint"

definition call_github_api ::
  "world \<Rightarrow> pystr \<Rightarrow> headers \<Rightarrow> pystr \<Rightarrow> pystr \<Rightarrow> (bool \<times> json) \<times> event list" where
  "call_github_api w endpoint hdrs org repo =
     (let url = api_url org repo endpoint in
      case http_get w url hdrs of
        Http_Exception \<Rightarrow>
          ((False, JNull), [Http_Get url hdrs, Stderr (Api_Exception endpoint)])
      | Http_Response status body \<Rightarrow>
          if status = 200 then
            (case body of
               None \<Rightarrow> ((False, JNull), [Http_Get url hdrs, Stderr (Api_Exception endpoint)])
             | Some j \<Rightarrow> ((True, j), [Http_Get url hdrs]))
          else if status = 404 then
            ((False, JNull), [Http_Get url hdrs, Stderr (Api_Not_Found endpoint)])
          else
            ((False, JNull), [Http_Get url hdrs, Stderr (Api_Status endpoint status)]))"

definition get_repo_file_content ::
  "pylib \<Rightarrow> world \<Rightarrow> pystr \<Rightarrow> headers \<Rightarrow> pystr \<Rightarrow> pystr \<Rightarrow> pystr \<Rightarrow> pystr option \<times> event list" where
  "get_repo_file_content lib w file_path hdrs org repo br =
     (case call_github_api w (ascii ''contents/'' @ file_path @ ascii ''?ref='' @ br) hdrs org repo of
        ((success, result), ev) \<Rightarrow>
          if \<not> success \<or> \<not> truthy result then (None, ev)
          else
            (case result of
               JObj kvs \<Rightarrow>
                 (case b64decode_utf8 lib
                         (case map_of kvs (ascii ''content'') of None \<Rightarrow> JStr [] | Some v \<Rightarrow> v) of
                    None \<Rightarrow> (None, ev @ [Stderr (Decode_Error file_path)])
                  | Some s \<Rightarrow> (Some s, ev))
             | _ \<Rightarrow> (None, ev @ [Stderr (Decode_Error file_path)])))"

text \<open>The loop of \<open>search_commits\<close> over the commits, leaving at the first match.\<close>

fun search_loop :: "(pystr \<Rightarrow> bool) \<Rightarrow> json list \<Rightarrow> exn + bool" where
  "search_loop pattern [] = Inr False"
| "search_loop pattern (commit # commits) =
     (case py_getitem commit (ascii ''commit'') of
        Inl e \<Rightarrow> Inl e
      | Inr c \<Rightarrow>
          (case py_getitem c (ascii ''message'') of
             Inl e \<Rightarrow> Inl e
           | Inr (JStr m) \<Rightarrow> if pattern m then Inr True else search_loop pattern commits
           | Inr _ \<Rightarrow> Inl TypeError))"

definition search_commits ::
  "pylib \<Rightarrow> world \<Rightarrow> headers \<Rightarrow> pystr \<Rightarrow> pystr \<Rightarrow> pystr \<Rightarrow> int \<Rightarrow> (exn + bool) \<times> event list" where
  "search_commits lib w hdrs org repo commit_msg_pattern maxc =
     (case call_github_api w (ascii ''commits?per_page='' @ py_str_int maxc) hdrs org repo of
        ((success, commits), ev) \<Rightarrow>
          if \<not> success then (Inr False, ev)
          else
            (case re_compile lib True commit_msg_pattern of
               None \<Rightarrow> (Inl ReError, ev)
             | Some pattern \<Rightarrow>
                 (case py_iter commits of
                    Inl e \<Rightarrow> (Inl e, ev)
                  | Inr cs \<Rightarrow> (search_loop pattern cs, ev))))"

section \<open>Verification steps\<close>

definition verify_file_existence ::
  "pylib \<Rightarrow> world \<Rightarrow> config \<Rightarrow> headers \<Rightarrow> pystr \<Rightarrow> pystr \<Rightarrow> (bool \<times> pystr option) \<times> event list" where
  "verify_file_existence lib w cfg hdrs org repo =
     (let file_path = path (target_file cfg); br = branch (target_file cfg) in
      case get_repo_file_content lib w file_path hdrs org repo br of
        (content, ev) \<Rightarrow>
          if content = None \<or> content = Some [] then
            ((False, None),
             [Stdout (Exist_Start file_path br)] @ ev @ [Stderr (Exist_Fail file_path br)])
          else
            ((True, content),
             [Stdout (Exist_Start file_path br)] @ ev @ [Stdout (Exist_Ok file_path)]))"

definition verify_file_structure :: "pystr \<Rightarrow> config \<Rightarrow> bool \<times> event list" where
  "verify_file_structure content cfg =
     (let required = required_structures cfg;
          missing = filter (\<lambda>struct. \<not> py_in struct content) required in
      if missing \<noteq> [] then
        (False, [Stdout (Struct_Start (length required)),
                 Stderr (Struct_Missing (py_join (ascii '', '') missing))])
      else (True, [Stdout (Struct_Start (length required)), Stdout Struct_Ok]))"

text \<open>
  \<open>re.search(r"(\d+)", line)\<close> and its group 1: the leftmost maximal run of characters
  of the class \<open>\d\<close>; \<open>None\<close> when the line has none.
\<close>

definition first_digit_run :: "(codepoint \<Rightarrow> bool) \<Rightarrow> pystr \<Rightarrow> pystr option" where
  "first_digit_run d line =
     (case dropWhile (\<lambda>c. \<not> d c) line of
        [] \<Rightarrow> None
      | c # cs \<Rightarrow> Some (takeWhile d (c # cs)))"

text \<open>The inner loop of a \<open>stat_match\<close> rule; the expected value is a string.\<close>

fun stat_match :: "pylib \<Rightarrow> pystr \<Rightarrow> pystr \<Rightarrow> pystr list \<Rightarrow> bool" where
  "stat_match lib tgt exp [] = False"
| "stat_match lib tgt exp (line # lines) =
     (if py_in tgt line then
        (case first_digit_run (isdecimal lib) line of
           None \<Rightarrow> stat_match lib tgt exp lines
         | Some g \<Rightarrow> if g = exp then True else stat_match lib tgt exp lines)
      else stat_match lib tgt exp lines)"

text \<open>The value of \<open>matched\<close> after the dispatch on the rule's type.\<close>

definition rule_matched :: "pylib \<Rightarrow> pystr \<Rightarrow> pystr list \<Rightarrow> content_rule \<Rightarrow> exn + bool" where
  "rule_matched lib content lines rule =
     (if rule_type rule = ascii ''stat_match'' then
        Inr (stat_match lib (target rule) (expected rule) lines)
      else if rule_type rule = ascii ''regex_match'' then
        (case re_compile lib False (expected rule) of
           None \<Rightarrow> Inl ReError
         | Some pattern \<Rightarrow> Inr (pattern content))
      else if rule_type rule = ascii ''text_match'' then
        Inr (py_in (expected rule) content)
      else Inr False)"

text \<open>The loop over the rules, returning at the first one that is not matched.\<close>

fun check_rules ::
  "pylib \<Rightarrow> pystr \<Rightarrow> pystr list \<Rightarrow> content_rule list \<Rightarrow> (exn + bool) \<times> event list" where
  "check_rules lib content lines [] = (Inr True, [Stdout Content_Ok])"
| "check_rules lib content lines (rule # rules) =
     (case rule_matched lib content lines rule of
        Inl e \<Rightarrow> (Inl e, [])
      | Inr matched \<Rightarrow>
          if \<not> matched then
            (Inr False, [Stderr (Content_Rule_Fail (target rule) (expected rule))])
          else check_rules lib content lines rules)"

definition verify_content_accuracy ::
  "pylib \<Rightarrow> pystr \<Rightarrow> config \<Rightarrow> (exn + bool) \<times> event list" where
  "verify_content_accuracy lib content cfg =
     (let rules = content_rules cfg in
      if rules = [] then (Inr True, [Stdout Content_Skip])
      else
        (case check_rules lib content (split_lines content) rules of
           (res, ev) \<Rightarrow> (res, Stdout (Content_Start (length rules)) # ev)))"

definition verify_commit_record ::
  "pylib \<Rightarrow> world \<Rightarrow> config \<Rightarrow> headers \<Rightarrow> pystr \<Rightarrow> pystr \<Rightarrow> (exn + bool) \<times> event list" where
  "verify_commit_record lib w cfg hdrs org repo =
     (case commit_verification cfg of
        None \<Rightarrow> (Inr True, [Stdout Commit_Skip])
      | Some commit_config \<Rightarrow>
          (let commit_msg_pattern = msg_pattern commit_config;
               maxc = (case max_commits commit_config of None \<Rightarrow> 10 | Some n \<Rightarrow> n) in
           case search_commits lib w hdrs org repo commit_msg_pattern maxc of
             (Inl e, ev) \<Rightarrow> (Inl e, Stdout (Commit_Start commit_msg_pattern maxc) # ev)
           | (Inr found, ev) \<Rightarrow>
               if \<not> found then
                 (Inr False,
                  Stdout (Commit_Start commit_msg_pattern maxc) # ev @ [Stderr Commit_Fail])
               else
                 (Inr True,
                  Stdout (Commit_Start commit_msg_pattern maxc) # ev @ [Stdout Commit_Ok])))"

section \<open>Main flow\<close>

text \<open>
  The part of \<open>run_verification\<close> after the credentials are loaded: the four steps.
  \<open>verify_file_existence\<close> returns \<open>True\<close> only together with a content string, so
  the branch for \<open>(True, None)\<close> is never taken; there the later steps would raise.
\<close>

definition run_steps ::
  "pylib \<Rightarrow> world \<Rightarrow> config \<Rightarrow> pystr \<Rightarrow> pystr \<Rightarrow> (exn + bool) \<times> event list" where
  "run_steps lib w cfg github_token github_org =
     (let repo_name = target_repo cfg;
          hdrs = build_headers github_token;
          ev0 = [Stdout (Env_Ready github_org repo_name)] in
      case verify_file_existence lib w cfg hdrs github_org repo_name of
        ((file_exists, file_content), ev1) \<Rightarrow>
          if \<not> file_exists then (Inr False, ev0 @ ev1)
          else
            (case file_content of
               None \<Rightarrow> (Inl TypeError, ev0 @ ev1)
             | Some content \<Rightarrow>
                 (case verify_file_structure content cfg of
                    (structure_valid, ev2) \<Rightarrow>
                      if \<not> structure_valid then (Inr False, ev0 @ ev1 @ ev2)
                      else
                        (case verify_content_accuracy lib content cfg of
                           (Inl e, ev3) \<Rightarrow> (Inl e, ev0 @ ev1 @ ev2 @ ev3)
                         | (Inr content_valid, ev3) \<Rightarrow>
                             if \<not> content_valid then (Inr False, ev0 @ ev1 @ ev2 @ ev3)
                             else
                               (case verify_commit_record lib w cfg hdrs github_org repo_name of
                                  (Inl e, ev4) \<Rightarrow> (Inl e, ev0 @ ev1 @ ev2 @ ev3 @ ev4)
                                | (Inr commit_valid, ev4) \<Rightarrow>
                                    if \<not> commit_valid then
                                      (Inr False, ev0 @ ev1 @ ev2 @ ev3 @ ev4)
                                    else
                                      (Inr True,
                                       ev0 @ ev1 @ ev2 @ ev3 @ ev4 @
                                       [Stdout Banner, Stdout All_Passed,
                                        Stdout (Verified_Object (path (target_file cfg))),
                                        Stdout (Verified_Repo github_org repo_name),
                                        Stdout Banner]))))))"

text \<open>
  \<open>not github_token\<close> holds of \<open>None\<close> (the variable is not set) and of the empty
  string; the token is tested before the organisation.
\<close>

definition run_verification :: "pylib \<Rightarrow> world \<Rightarrow> config \<Rightarrow> (exn + bool) \<times> event list" where
  "run_verification lib w cfg =
     (let start = [Stdout Banner, Stdout Start_Line, Stdout Banner];
          no_token = (Inr False, start @ [Stderr Env_Error_Token]);
          no_org = (Inr False, start @ [Stderr Env_Error_Org]) in
      case load_env w of
        (github_token, github_org) \<Rightarrow>
          (case github_token of
             None \<Rightarrow> no_token
           | Some tok \<Rightarrow>
               if tok = [] then no_token
               else
                 (case github_org of
                    None \<Rightarrow> no_org
                  | Some org \<Rightarrow>
                      if org = [] then no_org
                      else
                        (case run_steps lib w cfg tok org of
                           (res, ev) \<Rightarrow> (res, start @ ev)))))"

text \<open>
  The exit status of the process: \<open>sys.exit(0 if success else 1)\<close>; an uncaught
  exception ends the interpreter with status 1.
\<close>

definition exit_code :: "pylib \<Rightarrow> world \<Rightarrow> config \<Rightarrow> int" where
  "exit_code lib w cfg =
     (case fst (run_verification lib w cfg) of
        Inr success \<Rightarrow> if success then 0 else 1
      | Inl e \<Rightarrow> 1)"

section \<open>The shipped configuration and a sample environment\<close>

text \<open>
  \<open>VERIFICATION_CONFIG\<close>, its non-ASCII strings given by their code points; the three
  content rules are named after their types.
\<close>

definition stat_rule :: content_rule where
  "stat_rule =
     \<lparr>rule_type = ascii ''stat_match'',
      target = [20998, 26512, 30340, 25552, 20132, 24635, 25968, 65306],
      expected = ascii ''158''\<rparr>"

definition regex_rule :: content_rule where
  "regex_rule =
     \<lparr>rule_type = ascii ''regex_match'',
      target = [20849, 21516, 21019, 20316, 32773, 37038, 31665],
      expected = ascii ''noreply@anthropic'' @ [92] @ ascii ''.com''\<rparr>"

definition text_rule :: content_rule where
  "text_rule =
     \<lparr>rule_type = ascii ''text_match'',
      target = [39564, 35777, 29366, 24577],
      expected = [39564, 35777, 29366, 24577, 65306, 36890, 36807]\<rparr>"

definition VERIFICATION_CONFIG :: config where
  "VERIFICATION_CONFIG =
     \<lparr>target_repo = ascii ''claude-code'',
      target_file = \<lparr>path = ascii ''CLAUDE_COLLABORATION_ANALYSIS.md'', branch = ascii ''main''\<rparr>,
      required_structures =
        [ascii ''# Claude AI '' @ [21327, 20316, 20998, 26512],
         ascii ''## '' @ [27719, 24635, 32479, 35745],
         ascii ''| Developer | GitHub Username |''],
      content_rules = [stat_rule, regex_rule, text_rule],
      commit_verification =
        Some \<lparr>msg_pattern =
                [28155, 21152] @ ascii '' Claude AI '' @ [21327, 20316, 20998, 26512, 25253, 21578],
              max_commits = Some 10\<rparr>\<rparr>"

text \<open>
  A library instance for the examples. It agrees with Python where the examples use it:
  of the characters that occur there, exactly \<open>0\<close> to \<open>9\<close> are in the class \<open>\d\<close>; a
  pattern of ASCII letters, digits and spaces matches where it occurs literally, up to
  ASCII letter case under \<open>re.IGNORECASE\<close>; \<open>b64decode\<close> of the empty string is empty
  and that of \<open>"aGk="\<close> is \<open>"hi"\<close>. Every other pattern or payload is rejected by
  this instance.
\<close>

definition ascii_digit :: "codepoint \<Rightarrow> bool" where
  "ascii_digit c = (48 \<le> c \<and> c \<le> 57)"

definition ascii_lower :: "codepoint \<Rightarrow> codepoint" where
  "ascii_lower c = (if 65 \<le> c \<and> c \<le> 90 then c + 32 else c)"

definition plain_char :: "codepoint \<Rightarrow> bool" where
  "plain_char c = (c = 32 \<or> ascii_digit c \<or> (65 \<le> c \<and> c \<le> 90) \<or> (97 \<le> c \<and> c \<le> 122))"

definition sample_lib :: pylib where
  "sample_lib =
     \<lparr>re_compile = (\<lambda>ic p.
        if list_all plain_char p then
          Some (\<lambda>s. if ic then py_in (map ascii_lower p) (map ascii_lower s) else py_in p s)
        else None),
      isdecimal = ascii_digit,
      b64decode_utf8 = (\<lambda>v.
        if v = JStr [] then Some []
        else if v = JStr (ascii ''aGk='') then Some (ascii ''hi'')
        else None)\<rparr>"

text \<open>Two one-line reports and a two-line one, for the examples.\<close>

definition report_158 :: pystr where
  "report_158 = [20998, 26512, 30340, 25552, 20132, 24635, 25968, 65306] @ ascii ''158 '' @ [27425]"

definition report_200 :: pystr where
  "report_200 = [20998, 26512, 30340, 25552, 20132, 24635, 25968, 65306] @ ascii ''200 '' @ [27425]"

definition report_200_158 :: pystr where
  "report_200_158 = report_200 @ [10] @ report_158"

text \<open>
  An environment with both credentials, a configuration whose four steps can pass on the
  two-letter file \<open>hi\<close>, and a remote with that file and a history of three commits,
  most recent first, of which a request for two per page gets the first two.
\<close>

definition sample_environ :: "string \<Rightarrow> pystr option" where
  "sample_environ v =
     (if v = ''GITHUB_TOKEN'' then Some (ascii ''secret'')
      else if v = ''GITHUB_ORG'' then Some (ascii ''acme'')
      else None)"

definition greeting_rule :: content_rule where
  "greeting_rule =
     \<lparr>rule_type = ascii ''text_match'', target = ascii ''greeting'', expected = ascii ''hi''\<rparr>"

definition report_rule :: commit_rule where
  "report_rule = \<lparr>msg_pattern = ascii ''add report'', max_commits = Some 2\<rparr>"

definition sample_config :: config where
  "sample_config =
     \<lparr>target_repo = ascii ''demo'',
      target_file = \<lparr>path = ascii ''README.md'', branch = ascii ''main''\<rparr>,
      required_structures = [ascii ''h''],
      content_rules = [greeting_rule],
      commit_verification = Some report_rule\<rparr>"

definition commit_obj :: "pystr \<Rightarrow> json" where
  "commit_obj m =
     JObj [(ascii ''sha'', JStr (ascii ''0a1b'')),
           (ascii ''commit'', JObj [(ascii ''message'', JStr m)])]"

definition sample_history :: "json list" where
  "sample_history =
     [commit_obj (ascii ''Fix typo''), commit_obj (ascii ''Add Report''),
      commit_obj (ascii ''Initial commit'')]"

definition sample_world :: world where
  "sample_world =
     \<lparr>environ = sample_environ,
      http_get = (\<lambda>url hdrs.
        if url = ascii ''https://api.github.com/repos/acme/demo/contents/README.md?ref=main''
        then Http_Response 200 (Some (JObj [(ascii ''content'', JStr (ascii ''aGk=''))]))
        else if url = ascii ''https://api.github.com/repos/acme/demo/commits?per_page=2''
        then Http_Response 200 (Some (JArr (take 2 sample_history)))
        else Http_Response 404 None)\<rparr>"

text \<open>A remote that gives the same answer to every request.\<close>

definition answering :: "http_result \<Rightarrow> world" where
  "answering r = \<lparr>environ = sample_environ, http_get = (\<lambda>url hdrs. r)\<rparr>"

text \<open>
  Variations that make one step fail: a rule whose pattern Python rejects (an unbalanced
  parenthesis), a rule of an unknown type, a commit rule that only the third commit of
  the history satisfies, a required structure the file lacks, and worlds without
  credentials.
\<close>

definition broken_rule :: content_rule where
  "broken_rule =
     \<lparr>rule_type = ascii ''regex_match'', target = ascii ''email'', expected = ascii ''(''\<rparr>"

definition fuzzy_rule :: content_rule where
  "fuzzy_rule =
     \<lparr>rule_type = ascii ''fuzzy_match'', target = ascii ''greeting'', expected = ascii ''hi''\<rparr>"

definition initial_rule :: commit_rule where
  "initial_rule = \<lparr>msg_pattern = ascii ''initial'', max_commits = Some 2\<rparr>"

definition config_missing_structure :: config where
  "config_missing_structure = sample_config\<lparr>required_structures := [ascii ''zzz'']\<rparr>"

definition config_broken_rule :: config where
  "config_broken_rule = sample_config\<lparr>content_rules := [broken_rule]\<rparr>"

definition config_old_commit :: config where
  "config_old_commit = sample_config\<lparr>commit_verification := Some initial_rule\<rparr>"

definition no_environ :: world where
  "no_environ = \<lparr>environ = (\<lambda>v. None), http_get = (\<lambda>url hdrs. Http_Exception)\<rparr>"


section \<open>Reading a run\<close>

text \<open>
  Each step prints its own first line, \<open>[k/4]\<close>, before anything else; \<open>steps_run\<close>
  reads from a trace which steps were started, in order.
\<close>

fun step_no :: "event \<Rightarrow> nat option" where
  "step_no (Stdout (Exist_Start p b)) = Some 1"
| "step_no (Stdout (Struct_Start n)) = Some 2"
| "step_no (Stdout (Content_Start n)) = Some 3"
| "step_no (Stdout Content_Skip) = Some 3"
| "step_no (Stdout (Commit_Start p n)) = Some 4"
| "step_no (Stdout Commit_Skip) = Some 4"
| "step_no e = None"

definition steps_run :: "event list \<Rightarrow> nat list" where
  "steps_run tr = List.map_filter step_no tr"

text \<open>
  The credentials a run works with: both variables set and not empty, else none.
\<close>

definition credentials :: "world \<Rightarrow> (pystr \<times> pystr) option" where
  "credentials w =
     (case (environ w ''GITHUB_TOKEN'', environ w ''GITHUB_ORG'') of
        (Some tok, Some org) \<Rightarrow> if tok = [] \<or> org = [] then None else Some (tok, org)
      | _ \<Rightarrow> None)"



section \<open>Strings and lines\<close>

lemma py_in_sublist: "py_in sub s = sublist sub s"
  by (induction s) (cases sub; simp add: sublist_code)+

lemma py_in_iff: "py_in sub s \<longleftrightarrow> (\<exists>pre post. s = pre @ sub @ post)"
  by (simp add: py_in_sublist sublist_def)

lemma split_from_nonempty: "split_from cur s \<noteq> []"
  by (induction s arbitrary: cur) auto

lemma split_from_join: "py_join [10] (split_from cur s) = cur @ s"
proof (induction s arbitrary: cur)
  case Nil
  then show ?case by simp
next
  case (Cons c s)
  show ?case
  proof (cases "c = 10")
    case True
    obtain l ls where "split_from [] s = l # ls"
      using split_from_nonempty [of "[]" s] by (auto simp: neq_Nil_conv)
    then show ?thesis using Cons [of "[]"] True by simp
  next
    case False
    then show ?thesis using Cons [of "cur @ [c]"] by simp
  qed
qed

lemma split_from_no_newline:
  "10 \<notin> set cur \<Longrightarrow> \<forall>line\<in>set (split_from cur s). 10 \<notin> set line"
proof (induction s arbitrary: cur)
  case Nil
  then show ?case by simp
next
  case (Cons c s)
  show ?case
  proof (cases "c = 10")
    case True
    then show ?thesis using Cons.IH [of "[]"] Cons.prems by simp
  next
    case False
    then show ?thesis using Cons.IH [of "cur @ [c]"] Cons.prems by simp
  qed
qed

text \<open>The lines are the content cut at its line feeds: joined again they give it back.\<close>

lemma split_lines_join: "py_join [10] (split_lines s) = s"
  by (simp add: split_lines_def split_from_join)

lemma split_lines_no_newline: "line \<in> set (split_lines s) \<Longrightarrow> 10 \<notin> set line"
  using split_from_no_newline [of "[]" s] by (simp add: split_lines_def)

text \<open>
  The first digit run is the leftmost maximal block of digits: nothing before it is a
  digit, and it ends at the end of the line or before a character that is not a digit.
\<close>

lemma first_digit_run_Some:
  "first_digit_run d line = Some g \<longleftrightarrow>
     (\<exists>pre post. line = pre @ g @ post \<and> (\<forall>c\<in>set pre. \<not> d c) \<and> g \<noteq> [] \<and>
        (\<forall>c\<in>set g. d c) \<and> (post = [] \<or> \<not> d (hd post)))"
proof
  assume run: "first_digit_run d line = Some g"
  let ?pre = "takeWhile (\<lambda>c. \<not> d c) line"
  let ?rest = "dropWhile (\<lambda>c. \<not> d c) line"
  from run obtain c cs where rest: "?rest = c # cs" and g: "g = takeWhile d (c # cs)"
    by (auto simp: first_digit_run_def split: list.splits)
  from rest have "d c"
    using hd_dropWhile [of "\<lambda>c. \<not> d c" line] by simp
  with g have "g \<noteq> []" by simp
  moreover have "line = ?pre @ g @ dropWhile d (c # cs)"
    using rest g by (metis takeWhile_dropWhile_id)
  moreover have "\<forall>c\<in>set ?pre. \<not> d c"
    by (auto dest: set_takeWhileD)
  moreover have "\<forall>c\<in>set g. d c"
    using g by (auto dest: set_takeWhileD)
  moreover have "dropWhile d (c # cs) = [] \<or> \<not> d (hd (dropWhile d (c # cs)))"
    using hd_dropWhile [of d "c # cs"] by blast
  ultimately show "\<exists>pre post. line = pre @ g @ post \<and> (\<forall>c\<in>set pre. \<not> d c) \<and> g \<noteq> [] \<and>
        (\<forall>c\<in>set g. d c) \<and> (post = [] \<or> \<not> d (hd post))"
    by blast
next
  assume "\<exists>pre post. line = pre @ g @ post \<and> (\<forall>c\<in>set pre. \<not> d c) \<and> g \<noteq> [] \<and>
        (\<forall>c\<in>set g. d c) \<and> (post = [] \<or> \<not> d (hd post))"
  then obtain pre post where line: "line = pre @ g @ post"
    and pre: "\<forall>c\<in>set pre. \<not> d c" and ne: "g \<noteq> []" and dg: "\<forall>c\<in>set g. d c"
    and post: "post = [] \<or> \<not> d (hd post)"
    by blast
  from ne obtain c cs where gc: "g = c # cs" by (cases g) auto
  with dg have "d c" by simp
  have "dropWhile (\<lambda>c. \<not> d c) line = g @ post"
    using pre \<open>d c\<close> by (simp add: line gc)
  moreover have "takeWhile d post = []"
    using post by (cases post) auto
  then have "takeWhile d (g @ post) = g"
    using dg by simp
  ultimately show "first_digit_run d line = Some g"
    by (simp add: first_digit_run_def gc)
qed

section \<open>Content rules\<close>

lemma stat_match_iff:
  "stat_match lib tgt exp lines \<longleftrightarrow>
     (\<exists>line\<in>set lines. py_in tgt line \<and> first_digit_run (isdecimal lib) line = Some exp)"
  by (induction lines) (auto split: option.splits)

text \<open>
  C1, as the code has it. A \<open>stat_match\<close> rule is matched exactly when some line of the
  content contains the target label and has a first digit run equal, as text, to the
  expected value. A line that contains the label with another number does not match
  itself, and it does not end the scan: a later line with the label and the expected
  number still matches the rule.
\<close>

theorem stat_match_any_line:
  "rule_type rule = ascii ''stat_match'' \<Longrightarrow>
   rule_matched lib content (split_lines content) rule =
     Inr (\<exists>line\<in>set (split_lines content).
            py_in (target rule) line \<and>
            first_digit_run (isdecimal lib) line = Some (expected rule))"
  by (simp add: rule_matched_def stat_match_iff)

theorem stat_match_any_line_witness:
  "rule_type stat_rule = ascii ''stat_match'' \<and>
   rule_matched sample_lib report_158 (split_lines report_158) stat_rule = Inr True \<and>
   rule_matched sample_lib report_200 (split_lines report_200) stat_rule = Inr False"
  using stat_match_any_line [of stat_rule sample_lib report_158]
    stat_match_any_line [of stat_rule sample_lib report_200]
  by (simp add: stat_rule_def report_158_def report_200_def split_lines_def ascii_def
      first_digit_run_def sample_lib_def ascii_digit_def)

text \<open>
  C1 as stated fails: in \<open>report_200_158\<close> the first line that contains the label has
  the first digit run \<open>200\<close>, the second line has the label and \<open>158\<close>, and the rule
  expecting \<open>158\<close> is matched.
\<close>

theorem stat_match_first_line_counterexample:
  "split_lines report_200_158 = [report_200, report_158] \<and>
   py_in (target stat_rule) report_200 \<and>
   first_digit_run (isdecimal sample_lib) report_200 = Some (ascii ''200'') \<and>
   ascii ''200'' \<noteq> expected stat_rule \<and>
   py_in (target stat_rule) report_158 \<and>
   first_digit_run (isdecimal sample_lib) report_158 = Some (expected stat_rule) \<and>
   rule_matched sample_lib report_200_158 (split_lines report_200_158) stat_rule = Inr True \<and>
   fst (verify_content_accuracy sample_lib report_200_158
          (VERIFICATION_CONFIG\<lparr>content_rules := [stat_rule]\<rparr>)) = Inr True"
  by (simp add: stat_rule_def report_200_158_def report_158_def report_200_def split_lines_def
      ascii_def first_digit_run_def sample_lib_def ascii_digit_def rule_matched_def
      verify_content_accuracy_def VERIFICATION_CONFIG_def)

text \<open>
  The loop over the rules stops at the first rule that is not matched: the rules after
  it have no part in the result or in the log.
\<close>

lemma check_rules_first_failure:
  assumes "\<forall>q\<in>set rs1. rule_matched lib content lines q = Inr True"
    and "rule_matched lib content lines r = Inr False"
  shows "check_rules lib content lines (rs1 @ r # rs2) =
           (Inr False, [Stderr (Content_Rule_Fail (target r) (expected r))])"
  using assms by (induction rs1) auto

lemma check_rules_result:
  "map (rule_matched lib content lines) rs = map (rule_matched lib content lines) rs' \<Longrightarrow>
   fst (check_rules lib content lines rs) = fst (check_rules lib content lines rs')"
proof (induction rs arbitrary: rs')
  case Nil
  then show ?case by simp
next
  case (Cons r rs)
  then obtain r' rs'' where rs': "rs' = r' # rs''" by (cases rs') auto
  with Cons.prems have hd: "rule_matched lib content lines r = rule_matched lib content lines r'"
    and tl: "map (rule_matched lib content lines) rs = map (rule_matched lib content lines) rs''"
    by auto
  from Cons.IH [OF tl] hd show ?case
    by (auto simp: rs' split: sum.splits)
qed

lemma rule_matched_target:
  "rule_type r = ascii ''regex_match'' \<or> rule_type r = ascii ''text_match'' \<Longrightarrow>
   rule_matched lib content lines (r\<lparr>target := t\<rparr>) = rule_matched lib content lines r"
  by (auto simp: rule_matched_def ascii_def)

text \<open>
  C3. With no content rule the step passes at once, logging that it is skipped.
  Otherwise the rules are taken in their configured order, and at the first rule that
  is not matched the step returns failure with that rule's diagnostic: the rules \<open>rs2\<close>
  after it enter the outcome only through their number in the opening line, whatever
  they are, even a rule whose evaluation would raise.
\<close>

theorem content_rules_fail_fast:
  "(content_rules cfg = [] \<longrightarrow>
      verify_content_accuracy lib content cfg = (Inr True, [Stdout Content_Skip])) \<and>
   (content_rules cfg = rs1 @ r # rs2 \<and>
    (\<forall>q\<in>set rs1. rule_matched lib content (split_lines content) q = Inr True) \<and>
    rule_matched lib content (split_lines content) r = Inr False \<longrightarrow>
      verify_content_accuracy lib content cfg =
        (Inr False,
         [Stdout (Content_Start (length rs1 + 1 + length rs2)),
          Stderr (Content_Rule_Fail (target r) (expected r))]))"
  by (auto simp: verify_content_accuracy_def check_rules_first_failure)

theorem content_rules_fail_fast_witness:
  "verify_content_accuracy sample_lib report_200 (VERIFICATION_CONFIG\<lparr>content_rules := []\<rparr>) =
     (Inr True, [Stdout Content_Skip]) \<and>
   verify_content_accuracy sample_lib report_200 VERIFICATION_CONFIG =
     (Inr False,
      [Stdout (Content_Start 3),
       Stderr (Content_Rule_Fail (target stat_rule) (ascii ''158''))]) \<and>
   verify_content_accuracy sample_lib report_158
       (VERIFICATION_CONFIG\<lparr>content_rules := [stat_rule, greeting_rule, broken_rule]\<rparr>) =
     (Inr False,
      [Stdout (Content_Start 3), Stderr (Content_Rule_Fail (ascii ''greeting'') (ascii ''hi''))]) \<and>
   rule_matched sample_lib report_158 (split_lines report_158) broken_rule = Inl ReError"
  using content_rules_fail_fast [where cfg = "VERIFICATION_CONFIG\<lparr>content_rules := []\<rparr>"
      and lib = sample_lib and content = report_200]
    content_rules_fail_fast [where lib = sample_lib and content = report_200
      and cfg = VERIFICATION_CONFIG and ?rs1.0 = "[]" and r = stat_rule
      and ?rs2.0 = "[regex_rule, text_rule]"]
    content_rules_fail_fast [where lib = sample_lib and content = report_158
      and cfg = "VERIFICATION_CONFIG\<lparr>content_rules := [stat_rule, greeting_rule, broken_rule]\<rparr>"
      and ?rs1.0 = "[stat_rule]" and r = greeting_rule and ?rs2.0 = "[broken_rule]"]
  by (simp add: verify_content_accuracy_def rule_matched_def split_lines_def first_digit_run_def
      VERIFICATION_CONFIG_def stat_rule_def regex_rule_def text_rule_def greeting_rule_def
      broken_rule_def report_158_def report_200_def sample_lib_def ascii_digit_def plain_char_def
      ascii_def)

text \<open>
  C8. A \<open>regex_match\<close> rule is the library's search of its pattern in the whole content
  (an exception when the library rejects the pattern), and a \<open>text_match\<close> rule holds
  exactly when the expected string occurs in the whole content. Neither looks at the
  lines: the result is the same for any list \<open>lines\<close>.
\<close>

theorem whole_content_rules:
  "(rule_type r = ascii ''regex_match'' \<longrightarrow>
      rule_matched lib content lines r =
        (case re_compile lib False (expected r) of
           None \<Rightarrow> Inl ReError
         | Some pattern \<Rightarrow> Inr (pattern content))) \<and>
   (rule_type r = ascii ''text_match'' \<longrightarrow>
      rule_matched lib content lines r = Inr (\<exists>pre post. content = pre @ expected r @ post))"
  by (auto simp: rule_matched_def ascii_def py_in_iff)

theorem whole_content_rules_witness:
  "rule_matched sample_lib (ascii ''mail noreply at anthropic'') []
     \<lparr>rule_type = ascii ''regex_match'', target = ascii ''email'', expected = ascii ''at anthropic''\<rparr> =
     Inr True \<and>
   split_lines (ascii ''zero\<newline>one\<newline>two'') = [ascii ''zero'', ascii ''one'', ascii ''two''] \<and>
   \<not> py_in (ascii ''one\<newline>two'') (ascii ''zero'') \<and>
   \<not> py_in (ascii ''one\<newline>two'') (ascii ''one'') \<and>
   \<not> py_in (ascii ''one\<newline>two'') (ascii ''two'') \<and>
   rule_matched sample_lib (ascii ''zero\<newline>one\<newline>two'')
     (split_lines (ascii ''zero\<newline>one\<newline>two''))
     \<lparr>rule_type = ascii ''text_match'', target = ascii ''pair'', expected = ascii ''one\<newline>two''\<rparr> =
     Inr True"
  using whole_content_rules [where lib = sample_lib and content = "ascii ''mail noreply at anthropic''"
      and lines = "[]"
      and r = "\<lparr>rule_type = ascii ''regex_match'', target = ascii ''email'',
                 expected = ascii ''at anthropic''\<rparr>"]
    whole_content_rules [where lib = sample_lib and content = "ascii ''zero\<newline>one\<newline>two''"
      and lines = "split_lines (ascii ''zero\<newline>one\<newline>two'')"
      and r = "\<lparr>rule_type = ascii ''text_match'', target = ascii ''pair'',
                 expected = ascii ''one\<newline>two''\<rparr>",
      unfolded py_in_iff [symmetric]]
  by (simp add: rule_matched_def split_lines_def sample_lib_def ascii_digit_def plain_char_def
      ascii_def)

text \<open>
  C9. Changing the target of a \<open>regex_match\<close> or \<open>text_match\<close> rule, anywhere in the
  rule list, leaves the result of the content-accuracy step as it was; only the
  diagnostic line shows the target.
\<close>

theorem target_only_in_diagnostic:
  assumes "rule_type r = ascii ''regex_match'' \<or> rule_type r = ascii ''text_match''"
  shows "fst (verify_content_accuracy lib content (cfg\<lparr>content_rules := rs1 @ r\<lparr>target := t\<rparr> # rs2\<rparr>)) =
         fst (verify_content_accuracy lib content (cfg\<lparr>content_rules := rs1 @ r # rs2\<rparr>))"
proof -
  have "fst (check_rules lib content (split_lines content) (rs1 @ r\<lparr>target := t\<rparr> # rs2)) =
        fst (check_rules lib content (split_lines content) (rs1 @ r # rs2))"
    by (rule check_rules_result) (simp add: rule_matched_target [OF assms])
  then show ?thesis
    by (simp add: verify_content_accuracy_def case_prod_beta Let_def)
qed

theorem target_only_in_diagnostic_witness:
  "verify_content_accuracy sample_lib (ascii ''oh'')
      (sample_config\<lparr>content_rules := [greeting_rule]\<rparr>) =
     (Inr False,
      [Stdout (Content_Start 1), Stderr (Content_Rule_Fail (ascii ''greeting'') (ascii ''hi''))]) \<and>
   verify_content_accuracy sample_lib (ascii ''oh'')
      (sample_config\<lparr>content_rules := [greeting_rule\<lparr>target := ascii ''oh''\<rparr>]\<rparr>) =
     (Inr False,
      [Stdout (Content_Start 1), Stderr (Content_Rule_Fail (ascii ''oh'') (ascii ''hi''))])"
  using target_only_in_diagnostic [where r = greeting_rule and lib = sample_lib
      and content = "ascii ''oh''" and cfg = sample_config and ?rs1.0 = "[]" and ?rs2.0 = "[]"
      and t = "ascii ''oh''"]
  by (simp add: verify_content_accuracy_def rule_matched_def split_lines_def sample_config_def
      greeting_rule_def ascii_def)

text \<open>
  C10. A rule whose type is none of \<open>stat_match\<close>, \<open>regex_match\<close> and \<open>text_match\<close>
  is never matched, whatever the content; when the rules before it are matched, the
  step fails at it.
\<close>

theorem unknown_rule_type_fails:
  assumes "rule_type r \<noteq> ascii ''stat_match''" "rule_type r \<noteq> ascii ''regex_match''"
    "rule_type r \<noteq> ascii ''text_match''"
  shows "rule_matched lib content lines r = Inr False \<and>
    (content_rules cfg = rs1 @ r # rs2 \<and>
     (\<forall>q\<in>set rs1. rule_matched lib content (split_lines content) q = Inr True) \<longrightarrow>
       verify_content_accuracy lib content cfg =
         (Inr False,
          [Stdout (Content_Start (length rs1 + 1 + length rs2)),
           Stderr (Content_Rule_Fail (target r) (expected r))]))"
proof -
  have "rule_matched lib content ls r = Inr False" for ls
    using assms by (simp add: rule_matched_def)
  then show ?thesis
    by (auto simp: verify_content_accuracy_def check_rules_first_failure)
qed

theorem unknown_rule_type_fails_witness:
  "rule_type fuzzy_rule \<noteq> ascii ''stat_match'' \<and> rule_type fuzzy_rule \<noteq> ascii ''regex_match'' \<and>
   rule_type fuzzy_rule \<noteq> ascii ''text_match'' \<and>
   py_in (expected fuzzy_rule) (ascii ''hi'') \<and>
   verify_content_accuracy sample_lib (ascii ''hi'')
      (sample_config\<lparr>content_rules := [greeting_rule, fuzzy_rule, greeting_rule]\<rparr>) =
     (Inr False,
      [Stdout (Content_Start 3), Stderr (Content_Rule_Fail (ascii ''greeting'') (ascii ''hi''))])"
  using unknown_rule_type_fails [where r = fuzzy_rule and lib = sample_lib
      and content = "ascii ''hi''" and lines = "split_lines (ascii ''hi'')"
      and cfg = "sample_config\<lparr>content_rules := [greeting_rule, fuzzy_rule, greeting_rule]\<rparr>"
      and ?rs1.0 = "[greeting_rule]" and ?rs2.0 = "[greeting_rule]"]
  by (simp add: verify_content_accuracy_def rule_matched_def split_lines_def sample_config_def
      greeting_rule_def fuzzy_rule_def ascii_def)

section \<open>Structure\<close>

text \<open>
  C2. The structure check passes exactly when every required string occurs in the
  content as a block of the very same characters. When it fails, its error line names the
  required strings that do not occur, all of them, in their configured order, joined
  with a comma and a space.
\<close>

theorem structure_check_missing:
  "fst (verify_file_structure content cfg) =
     (\<forall>s\<in>set (required_structures cfg). \<exists>pre post. content = pre @ s @ post) \<and>
   (\<not> fst (verify_file_structure content cfg) \<longrightarrow>
      snd (verify_file_structure content cfg) =
        [Stdout (Struct_Start (length (required_structures cfg))),
         Stderr (Struct_Missing (py_join (ascii '', '')
           (filter (\<lambda>s. \<nexists>pre post. content = pre @ s @ post) (required_structures cfg))))])"
  by (auto simp: verify_file_structure_def Let_def py_in_iff filter_empty_conv)

theorem structure_check_missing_witness:
  "\<not> fst (verify_file_structure (ascii ''## '' @ [27719, 24635, 32479, 35745]) VERIFICATION_CONFIG) \<and>
   snd (verify_file_structure (ascii ''## '' @ [27719, 24635, 32479, 35745]) VERIFICATION_CONFIG) =
     [Stdout (Struct_Start 3),
      Stderr (Struct_Missing (ascii ''# Claude AI '' @ [21327, 20316, 20998, 26512] @
                ascii '', | Developer | GitHub Username |''))] \<and>
   fst (verify_file_structure (ascii ''oh hi'') sample_config)"
  using structure_check_missing [of "ascii ''## '' @ [27719, 24635, 32479, 35745]"
      VERIFICATION_CONFIG, unfolded py_in_iff [symmetric]]
    structure_check_missing [of "ascii ''oh hi''" sample_config, unfolded py_in_iff [symmetric]]
  by (simp add: verify_file_structure_def VERIFICATION_CONFIG_def sample_config_def ascii_def)

section \<open>Calls to the remote API\<close>

text \<open>
  A call succeeds exactly on status 200 with a JSON body; every other outcome gives
  \<open>(False, None)\<close>.
\<close>

lemma call_github_api_ok:
  "http_get w (api_url org repo ep) hdrs = Http_Response 200 (Some j) \<Longrightarrow>
   call_github_api w ep hdrs org repo = ((True, j), [Http_Get (api_url org repo ep) hdrs])"
  by (simp add: call_github_api_def)

lemma call_github_api_failed:
  "\<nexists>j. http_get w (api_url org repo ep) hdrs = Http_Response 200 (Some j) \<Longrightarrow>
   fst (call_github_api w ep hdrs org repo) = (False, JNull)"
  by (auto simp: call_github_api_def Let_def split: http_result.splits option.splits)

lemma get_repo_file_content_failed:
  "\<nexists>j. http_get w (api_url org repo (ascii ''contents/'' @ fp @ ascii ''?ref='' @ br)) hdrs =
         Http_Response 200 (Some j) \<Longrightarrow>
   fst (get_repo_file_content lib w fp hdrs org repo br) = None"
  using call_github_api_failed [of w org repo "ascii ''contents/'' @ fp @ ascii ''?ref='' @ br" hdrs]
  by (auto simp: get_repo_file_content_def split: prod.splits)

lemma get_repo_file_content_object:
  "http_get w (api_url org repo (ascii ''contents/'' @ fp @ ascii ''?ref='' @ br)) hdrs =
     Http_Response 200 (Some (JObj kvs)) \<Longrightarrow>
   fst (get_repo_file_content lib w fp hdrs org repo br) =
     (if kvs = [] then None
      else b64decode_utf8 lib
             (case map_of kvs (ascii ''content'') of None \<Rightarrow> JStr [] | Some v \<Rightarrow> v))"
  by (auto simp: get_repo_file_content_def call_github_api_ok split: option.splits)

lemma get_repo_file_content_not_object:
  "http_get w (api_url org repo (ascii ''contents/'' @ fp @ ascii ''?ref='' @ br)) hdrs =
     Http_Response 200 (Some j) \<Longrightarrow> \<forall>kvs. j \<noteq> JObj kvs \<Longrightarrow>
   fst (get_repo_file_content lib w fp hdrs org repo br) = None"
  by (cases j) (auto simp: get_repo_file_content_def call_github_api_ok)

lemma verify_file_existence_result:
  "fst (verify_file_existence lib w cfg hdrs org repo) =
     (case fst (get_repo_file_content lib w (path (target_file cfg)) hdrs org repo
                  (branch (target_file cfg))) of
        None \<Rightarrow> (False, None)
      | Some s \<Rightarrow> if s = [] then (False, None) else (True, Some s))"
  by (auto simp: verify_file_existence_def Let_def split: prod.splits option.splits)

lemma verify_file_existence_content:
  assumes "fst (verify_file_existence lib w cfg hdrs org repo) = (True, c)"
  shows "\<exists>s. c = Some s \<and> s \<noteq> []"
proof (cases "fst (get_repo_file_content lib w (path (target_file cfg)) hdrs org repo
    (branch (target_file cfg)))")
  case None
  with assms show ?thesis by (simp add: verify_file_existence_result)
next
  case (Some s)
  with assms show ?thesis by (cases "s = []") (auto simp: verify_file_existence_result)
qed

text \<open>
  C5. The existence step fails exactly when the fetched content is \<open>None\<close> or the empty
  string, and otherwise returns \<open>True\<close> with the content. A call that does not succeed,
  a body that is not an object, and a payload the decoder rejects give \<open>None\<close>; an object
  without a \<open>content\<close> field gives \<open>None\<close> when it is empty and else the decoding of
  the empty payload, which is the empty string. In all these cases the step fails.
\<close>

theorem existence_step:
  assumes "resp = http_get w (api_url org repo
             (ascii ''contents/'' @ path (target_file cfg) @ ascii ''?ref='' @ branch (target_file cfg))) hdrs"
    and "content = fst (get_repo_file_content lib w (path (target_file cfg)) hdrs org repo
                          (branch (target_file cfg)))"
    and "step = fst (verify_file_existence lib w cfg hdrs org repo)"
  shows
    "(step = (False, None) \<longleftrightarrow> content = None \<or> content = Some []) \<and>
     (step \<noteq> (False, None) \<longrightarrow> (\<exists>s. s \<noteq> [] \<and> content = Some s \<and> step = (True, Some s))) \<and>
     ((\<nexists>j. resp = Http_Response 200 (Some j)) \<longrightarrow> content = None \<and> step = (False, None)) \<and>
     (resp = Http_Response 200 (Some j) \<and> (\<forall>kvs. j \<noteq> JObj kvs) \<longrightarrow>
        content = None \<and> step = (False, None)) \<and>
     (resp = Http_Response 200 (Some (JObj kvs)) \<and> map_of kvs (ascii ''content'') = None \<and>
      b64decode_utf8 lib (JStr []) = Some [] \<longrightarrow>
        (content = None \<or> content = Some []) \<and> step = (False, None)) \<and>
     (resp = Http_Response 200 (Some (JObj kvs)) \<and> map_of kvs (ascii ''content'') = Some v \<and>
      b64decode_utf8 lib v = None \<longrightarrow>
        content = None \<and> step = (False, None)) \<and>
     (resp = Http_Response 200 (Some (JObj kvs)) \<and> map_of kvs (ascii ''content'') = Some v \<and>
      b64decode_utf8 lib v = Some s \<and> s \<noteq> [] \<longrightarrow>
        content = Some s \<and> step = (True, Some s))"
proof -
  have step: "step = (case content of None \<Rightarrow> (False, None)
                      | Some s \<Rightarrow> if s = [] then (False, None) else (True, Some s))"
    unfolding assms(2,3) by (rule verify_file_existence_result)
  have failing: "step = (False, None)" if "content = None \<or> content = Some []"
    using that by (auto simp: step)
  have passing: "step = (True, Some s)" if "content = Some s" "s \<noteq> []" for s
    using that by (simp add: step)
  have obj: "content = (if kvs = [] then None else b64decode_utf8 lib
               (case map_of kvs (ascii ''content'') of None \<Rightarrow> JStr [] | Some v \<Rightarrow> v))"
    if "resp = Http_Response 200 (Some (JObj kvs))"
    using that unfolding assms(1,2) by (simp add: get_repo_file_content_object)
  have c1: "step = (False, None) \<longleftrightarrow> content = None \<or> content = Some []"
    by (auto simp: step split: option.splits)
  have c2: "step \<noteq> (False, None) \<longrightarrow> (\<exists>s. s \<noteq> [] \<and> content = Some s \<and> step = (True, Some s))"
    by (auto simp: step split: option.splits if_splits)
  have c3: "(\<nexists>j. resp = Http_Response 200 (Some j)) \<longrightarrow> content = None \<and> step = (False, None)"
  proof
    assume "\<nexists>j. resp = Http_Response 200 (Some j)"
    then have "content = None"
      unfolding assms(1,2) by (rule get_repo_file_content_failed)
    with failing show "content = None \<and> step = (False, None)" by simp
  qed
  have c4: "resp = Http_Response 200 (Some j) \<and> (\<forall>kvs. j \<noteq> JObj kvs) \<longrightarrow>
        content = None \<and> step = (False, None)"
  proof
    assume "resp = Http_Response 200 (Some j) \<and> (\<forall>kvs. j \<noteq> JObj kvs)"
    then have "content = None"
      unfolding assms(1,2) by (simp add: get_repo_file_content_not_object)
    with failing show "content = None \<and> step = (False, None)" by simp
  qed
  have c5: "resp = Http_Response 200 (Some (JObj kvs)) \<and> map_of kvs (ascii ''content'') = None \<and>
      b64decode_utf8 lib (JStr []) = Some [] \<longrightarrow>
        (content = None \<or> content = Some []) \<and> step = (False, None)"
  proof
    assume "resp = Http_Response 200 (Some (JObj kvs)) \<and> map_of kvs (ascii ''content'') = None \<and>
      b64decode_utf8 lib (JStr []) = Some []"
    then have "content = None \<or> content = Some []" by (simp add: obj)
    with failing show "(content = None \<or> content = Some []) \<and> step = (False, None)" by simp
  qed
  have c6: "resp = Http_Response 200 (Some (JObj kvs)) \<and> map_of kvs (ascii ''content'') = Some v \<and>
      b64decode_utf8 lib v = None \<longrightarrow>
        content = None \<and> step = (False, None)"
  proof
    assume "resp = Http_Response 200 (Some (JObj kvs)) \<and> map_of kvs (ascii ''content'') = Some v \<and>
      b64decode_utf8 lib v = None"
    then have "content = None" by (simp add: obj)
    with failing show "content = None \<and> step = (False, None)" by simp
  qed
  have c7: "resp = Http_Response 200 (Some (JObj kvs)) \<and> map_of kvs (ascii ''content'') = Some v \<and>
      b64decode_utf8 lib v = Some s \<and> s \<noteq> [] \<longrightarrow>
        content = Some s \<and> step = (True, Some s)"
  proof
    assume a: "resp = Http_Response 200 (Some (JObj kvs)) \<and> map_of kvs (ascii ''content'') = Some v \<and>
      b64decode_utf8 lib v = Some s \<and> s \<noteq> []"
    then have "content = Some s" by (auto simp: obj)
    with a passing show "content = Some s \<and> step = (True, Some s)" by simp
  qed
  from c1 c2 c3 c4 c5 c6 c7 show ?thesis by (intro conjI)
qed



lemma sample_contents_url:
  "api_url (ascii ''acme'') (ascii ''demo'')
     (ascii ''contents/'' @ path (target_file sample_config) @ ascii ''?ref='' @
      branch (target_file sample_config)) =
   ascii ''https://api.github.com/repos/acme/demo/contents/README.md?ref=main''"
  by (simp add: api_url_def sample_config_def ascii_def)


theorem existence_step_witness:
  "fst (verify_file_existence sample_lib (answering (Http_Response 404 None)) sample_config
          (build_headers (ascii ''secret'')) (ascii ''acme'') (ascii ''demo'')) = (False, None) \<and>
   fst (get_repo_file_content sample_lib
          (answering (Http_Response 200 (Some (JObj [(ascii ''name'', JStr (ascii ''README.md''))]))))
          (ascii ''README.md'') (build_headers (ascii ''secret'')) (ascii ''acme'') (ascii ''demo'')
          (ascii ''main'')) = Some [] \<and>
   fst (verify_file_existence sample_lib
          (answering (Http_Response 200 (Some (JObj [(ascii ''name'', JStr (ascii ''README.md''))]))))
          sample_config (build_headers (ascii ''secret'')) (ascii ''acme'') (ascii ''demo'')) =
     (False, None) \<and>
   fst (verify_file_existence sample_lib
          (answering (Http_Response 200 (Some (JObj [(ascii ''content'', JStr (ascii ''a''))]))))
          sample_config (build_headers (ascii ''secret'')) (ascii ''acme'') (ascii ''demo'')) =
     (False, None) \<and>
   fst (verify_file_existence sample_lib (answering (Http_Response 200 (Some (JArr [JNull]))))
          sample_config (build_headers (ascii ''secret'')) (ascii ''acme'') (ascii ''demo'')) =
     (False, None) \<and>
   fst (verify_file_existence sample_lib sample_world sample_config
          (build_headers (ascii ''secret'')) (ascii ''acme'') (ascii ''demo'')) =
     (True, Some (ascii ''hi''))"
proof -
  let ?hdrs = "build_headers (ascii ''secret'')"
  let ?org = "ascii ''acme''" and ?repo = "ascii ''demo''"
  let ?name = "[(ascii ''name'', JStr (ascii ''README.md''))]"
  let ?bad = "[(ascii ''content'', JStr (ascii ''a''))]"
  let ?good = "[(ascii ''content'', JStr (ascii ''aGk=''))]"
  have target: "path (target_file sample_config) = ascii ''README.md''"
    "branch (target_file sample_config) = ascii ''main''"
    by (simp_all add: sample_config_def)
  have empty: "b64decode_utf8 sample_lib (JStr []) = Some []"
    and bad: "b64decode_utf8 sample_lib (JStr (ascii ''a'')) = None"
    and good: "b64decode_utf8 sample_lib (JStr (ascii ''aGk='')) = Some (ascii ''hi'')"
    by (simp_all add: sample_lib_def ascii_def)
  have fld: "map_of ?name (ascii ''content'') = None"
    "map_of ?bad (ascii ''content'') = Some (JStr (ascii ''a''))"
    "map_of ?good (ascii ''content'') = Some (JStr (ascii ''aGk=''))"
    by (simp_all add: ascii_def)
  have hi: "ascii ''hi'' \<noteq> []"
    by (simp add: ascii_def)
  have served: "http_get sample_world (api_url ?org ?repo
      (ascii ''contents/'' @ path (target_file sample_config) @ ascii ''?ref='' @
       branch (target_file sample_config))) ?hdrs = Http_Response 200 (Some (JObj ?good))"
    unfolding sample_contents_url by (simp add: sample_world_def ascii_def)
  have "fst (verify_file_existence sample_lib (answering (Http_Response 404 None)) sample_config
          ?hdrs ?org ?repo) = (False, None)"
    using existence_step [OF refl refl refl, where lib = sample_lib and cfg = sample_config
        and w = "answering (Http_Response 404 None)" and hdrs = ?hdrs and org = ?org
        and repo = ?repo and j = JNull and kvs = "[]" and v = JNull and s = "[]"]
    by (simp add: answering_def)
  moreover have "fst (get_repo_file_content sample_lib (answering (Http_Response 200 (Some (JObj ?name))))
          (ascii ''README.md'') ?hdrs ?org ?repo (ascii ''main'')) = Some [] \<and>
      fst (verify_file_existence sample_lib (answering (Http_Response 200 (Some (JObj ?name))))
          sample_config ?hdrs ?org ?repo) = (False, None)"
    using existence_step [OF refl refl refl, where lib = sample_lib and cfg = sample_config
        and w = "answering (Http_Response 200 (Some (JObj ?name)))" and hdrs = ?hdrs and org = ?org
        and repo = ?repo and j = JNull and kvs = ?name and v = JNull and s = "[]"]
      empty fld(1)
      get_repo_file_content_object [where lib = sample_lib and fp = "ascii ''README.md''"
        and w = "answering (Http_Response 200 (Some (JObj ?name)))" and hdrs = ?hdrs and org = ?org
        and repo = ?repo and br = "ascii ''main''" and kvs = ?name]
    by (simp add: answering_def)
  moreover have "fst (verify_file_existence sample_lib (answering (Http_Response 200 (Some (JObj ?bad))))
          sample_config ?hdrs ?org ?repo) = (False, None)"
    using existence_step [OF refl refl refl, where lib = sample_lib and cfg = sample_config
        and w = "answering (Http_Response 200 (Some (JObj ?bad)))" and hdrs = ?hdrs and org = ?org
        and repo = ?repo and j = JNull and kvs = ?bad and v = "JStr (ascii ''a'')" and s = "[]"]
      bad fld(2)
    by (simp add: answering_def)
  moreover have "fst (verify_file_existence sample_lib
          (answering (Http_Response 200 (Some (JArr [JNull]))))
          sample_config ?hdrs ?org ?repo) = (False, None)"
    using existence_step [OF refl refl refl, where lib = sample_lib and cfg = sample_config
        and w = "answering (Http_Response 200 (Some (JArr [JNull])))" and hdrs = ?hdrs
        and org = ?org and repo = ?repo and j = "JArr [JNull]" and kvs = "[]" and v = JNull
        and s = "[]"]
    by (simp add: answering_def)
  moreover have "fst (verify_file_existence sample_lib sample_world sample_config
          ?hdrs ?org ?repo) = (True, Some (ascii ''hi''))"
    using existence_step [OF refl refl refl, where lib = sample_lib and cfg = sample_config
        and w = sample_world and hdrs = ?hdrs and org = ?org
        and repo = ?repo and j = JNull and kvs = ?good and v = "JStr (ascii ''aGk='')"
        and s = "ascii ''hi''"]
      good fld(3) hi served
    by simp
  ultimately show ?thesis by simp
qed

section \<open>Commit record\<close>

















section \<open>The run as a whole\<close>

text \<open>Each step starts itself once and no other step; the API calls start none.\<close>

lemma steps_run_append: "steps_run (xs @ ys) = steps_run xs @ steps_run ys"
  by (simp add: steps_run_def List.map_filter_def)

lemma steps_run_Cons:
  "steps_run (e # es) = (case step_no e of None \<Rightarrow> steps_run es | Some k \<Rightarrow> k # steps_run es)"
  by (simp add: steps_run_def List.map_filter_def split: option.splits)

lemma steps_run_Nil: "steps_run [] = []"
  by (simp add: steps_run_def List.map_filter_def)

lemma steps_call_github_api: "steps_run (snd (call_github_api w ep hdrs org repo)) = []"
  by (simp add: call_github_api_def Let_def steps_run_Cons steps_run_Nil
      split: http_result.splits option.splits)

lemma steps_get_repo_file_content:
  "steps_run (snd (get_repo_file_content lib w fp hdrs org repo br)) = []"
  using steps_call_github_api [of w "ascii ''contents/'' @ fp @ ascii ''?ref='' @ br" hdrs org repo]
  by (auto simp: get_repo_file_content_def steps_run_append steps_run_Cons steps_run_Nil
      split: prod.splits json.splits option.splits)

lemma steps_search_commits:
  "steps_run (snd (search_commits lib w hdrs org repo pat n)) = []"
  using steps_call_github_api [of w "ascii ''commits?per_page='' @ py_str_int n" hdrs org repo]
  by (auto simp: search_commits_def split: prod.splits option.splits sum.splits)

lemma steps_verify_file_existence:
  "steps_run (snd (verify_file_existence lib w cfg hdrs org repo)) = [1]"
  using steps_get_repo_file_content
    [of lib w "path (target_file cfg)" hdrs org repo "branch (target_file cfg)"]
  by (auto simp: verify_file_existence_def Let_def steps_run_append steps_run_Cons steps_run_Nil
      split: prod.splits)

lemma steps_verify_file_structure:
  "steps_run (snd (verify_file_structure content cfg)) = [2]"
  by (simp add: verify_file_structure_def Let_def steps_run_Cons steps_run_Nil)

lemma steps_check_rules: "steps_run (snd (check_rules lib content lines rs)) = []"
  by (induction rs) (auto simp: steps_run_Cons steps_run_Nil split: sum.splits)

lemma steps_verify_content_accuracy:
  "steps_run (snd (verify_content_accuracy lib content cfg)) = [3]"
  using steps_check_rules [of lib content "split_lines content" "content_rules cfg"]
  by (auto simp: verify_content_accuracy_def Let_def steps_run_Cons steps_run_Nil
      split: prod.splits)

lemma steps_verify_commit_record:
  "steps_run (snd (verify_commit_record lib w cfg hdrs org repo)) = [4]"
proof (cases "commit_verification cfg")
  case None
  then show ?thesis
    by (simp add: verify_commit_record_def steps_run_Cons steps_run_Nil)
next
  case (Some rule)
  then show ?thesis
    using steps_search_commits [of lib w hdrs org repo "msg_pattern rule"
        "case max_commits rule of None \<Rightarrow> 10 | Some n \<Rightarrow> n"]
    by (auto simp: verify_commit_record_def Let_def steps_run_append steps_run_Cons steps_run_Nil
        split: prod.splits sum.splits)
qed

lemma run_verification_no_credentials:
  "credentials w = None \<Longrightarrow>
   run_verification lib w cfg =
     (Inr False, [Stdout Banner, Stdout Start_Line, Stdout Banner, Stderr Env_Error_Token]) \<or>
   run_verification lib w cfg =
     (Inr False, [Stdout Banner, Stdout Start_Line, Stdout Banner, Stderr Env_Error_Org])"
  by (auto simp: credentials_def run_verification_def load_env_def Let_def
      split: option.splits if_splits)

lemma run_verification_credentials:
  "credentials w = Some (tok, org) \<Longrightarrow>
   run_verification lib w cfg =
     (fst (run_steps lib w cfg tok org),
      [Stdout Banner, Stdout Start_Line, Stdout Banner] @ snd (run_steps lib w cfg tok org))"
  by (auto simp: credentials_def run_verification_def load_env_def Let_def
      split: option.splits if_splits prod.splits)

lemma run_steps_no_file:
  "\<not> fst (fst (verify_file_existence lib w cfg (build_headers tok) org (target_repo cfg))) \<Longrightarrow>
   fst (run_steps lib w cfg tok org) = Inr False \<and>
   steps_run (snd (run_steps lib w cfg tok org)) = [1]"
  using steps_verify_file_existence [of lib w cfg "build_headers tok" org "target_repo cfg"]
  by (auto simp: run_steps_def Let_def steps_run_Cons steps_run_append split: prod.splits)

lemma run_steps_structure:
  assumes "fst (verify_file_existence lib w cfg (build_headers tok) org (target_repo cfg)) =
             (True, Some c)"
    and "\<not> fst (verify_file_structure c cfg)"
  shows "fst (run_steps lib w cfg tok org) = Inr False \<and>
         steps_run (snd (run_steps lib w cfg tok org)) = [1, 2]"
  using assms steps_verify_file_existence [of lib w cfg "build_headers tok" org "target_repo cfg"]
    steps_verify_file_structure [of c cfg]
  by (auto simp: run_steps_def Let_def steps_run_Cons steps_run_append split: prod.splits)

lemma run_steps_content:
  assumes "fst (verify_file_existence lib w cfg (build_headers tok) org (target_repo cfg)) =
             (True, Some c)"
    and "fst (verify_file_structure c cfg)"
    and "fst (verify_content_accuracy lib c cfg) \<noteq> Inr True"
  shows "fst (run_steps lib w cfg tok org) = fst (verify_content_accuracy lib c cfg) \<and>
         steps_run (snd (run_steps lib w cfg tok org)) = [1, 2, 3]"
  using assms steps_verify_file_existence [of lib w cfg "build_headers tok" org "target_repo cfg"]
    steps_verify_file_structure [of c cfg] steps_verify_content_accuracy [of lib c cfg]
  by (auto simp: run_steps_def Let_def steps_run_Cons steps_run_append
      split: prod.splits sum.splits)

lemma run_steps_commit:
  assumes "fst (verify_file_existence lib w cfg (build_headers tok) org (target_repo cfg)) =
             (True, Some c)"
    and "fst (verify_file_structure c cfg)"
    and "fst (verify_content_accuracy lib c cfg) = Inr True"
  shows "fst (run_steps lib w cfg tok org) =
           fst (verify_commit_record lib w cfg (build_headers tok) org (target_repo cfg)) \<and>
         steps_run (snd (run_steps lib w cfg tok org)) = [1, 2, 3, 4]"
  using assms steps_verify_file_existence [of lib w cfg "build_headers tok" org "target_repo cfg"]
    steps_verify_file_structure [of c cfg] steps_verify_content_accuracy [of lib c cfg]
    steps_verify_commit_record [of lib w cfg "build_headers tok" org "target_repo cfg"]
  by (auto simp: run_steps_def Let_def steps_run_Cons steps_run_Nil steps_run_append
      split: prod.splits sum.splits)


lemma exit_code_alt:
  "exit_code lib w cfg = (if fst (run_verification lib w cfg) = Inr True then 0 else 1)"
  by (auto simp: exit_code_def split: sum.splits)




text \<open>
  C7. The exit status is 0 when the run returns success and 1 otherwise, an uncaught
  exception included. Without credentials no step starts. With them the steps start in
  the order 1, 2, 3, 4 and the run ends with the first step that does not pass: after a
  failed existence step only step 1 has started, after a failed structure check steps 1
  and 2, after a content-accuracy step that fails or raises steps 1 to 3, and otherwise
  all four, the result being that of the commit check. Once the file is fetched, the
  status is 0 exactly when the three later steps pass.
\<close>

theorem steps_in_order_and_exit_code:
  assumes "run = run_verification lib w cfg"
    and "s1 = fst (verify_file_existence lib w cfg (build_headers tok) org (target_repo cfg))"
    and "s2 = fst (verify_file_structure c cfg)"
    and "s3 = fst (verify_content_accuracy lib c cfg)"
    and "s4 = fst (verify_commit_record lib w cfg (build_headers tok) org (target_repo cfg))"
  shows
    "(exit_code lib w cfg = 0 \<longleftrightarrow> fst run = Inr True) \<and>
     (exit_code lib w cfg \<noteq> 0 \<longrightarrow> exit_code lib w cfg = 1) \<and>
     (credentials w = None \<longrightarrow> fst run = Inr False \<and> steps_run (snd run) = []) \<and>
     (credentials w = Some (tok, org) \<longrightarrow>
        (\<not> fst s1 \<longrightarrow> fst run = Inr False \<and> steps_run (snd run) = [1]) \<and>
        (s1 = (True, Some c) \<and> \<not> s2 \<longrightarrow> fst run = Inr False \<and> steps_run (snd run) = [1, 2]) \<and>
        (s1 = (True, Some c) \<and> s2 \<and> s3 \<noteq> Inr True \<longrightarrow>
           fst run = s3 \<and> steps_run (snd run) = [1, 2, 3]) \<and>
        (s1 = (True, Some c) \<and> s2 \<and> s3 = Inr True \<longrightarrow>
           fst run = s4 \<and> steps_run (snd run) = [1, 2, 3, 4]) \<and>
        (s1 = (True, Some c) \<longrightarrow>
           (exit_code lib w cfg = 0 \<longleftrightarrow> s2 \<and> s3 = Inr True \<and> s4 = Inr True)))"
proof -
  have code: "exit_code lib w cfg = 0 \<longleftrightarrow> fst run = Inr True"
    "exit_code lib w cfg \<noteq> 0 \<longrightarrow> exit_code lib w cfg = 1"
    by (simp_all add: exit_code_alt assms(1))
  have none: "credentials w = None \<longrightarrow> fst run = Inr False \<and> steps_run (snd run) = []"
  proof
    assume "credentials w = None"
    from run_verification_no_credentials [OF this, of lib cfg]
    show "fst run = Inr False \<and> steps_run (snd run) = []"
      by (auto simp: assms(1) steps_run_Cons steps_run_Nil)
  qed
  have some: "(\<not> fst s1 \<longrightarrow> fst run = Inr False \<and> steps_run (snd run) = [1]) \<and>
        (s1 = (True, Some c) \<and> \<not> s2 \<longrightarrow> fst run = Inr False \<and> steps_run (snd run) = [1, 2]) \<and>
        (s1 = (True, Some c) \<and> s2 \<and> s3 \<noteq> Inr True \<longrightarrow>
           fst run = s3 \<and> steps_run (snd run) = [1, 2, 3]) \<and>
        (s1 = (True, Some c) \<and> s2 \<and> s3 = Inr True \<longrightarrow>
           fst run = s4 \<and> steps_run (snd run) = [1, 2, 3, 4])"
    if cred: "credentials w = Some (tok, org)"
  proof -
    have run: "fst run = fst (run_steps lib w cfg tok org)"
      "steps_run (snd run) = steps_run (snd (run_steps lib w cfg tok org))"
      by (simp_all add: assms(1) run_verification_credentials [OF cred]
          steps_run_append steps_run_Cons steps_run_Nil)
    show ?thesis
      unfolding run assms(2-5)
      using run_steps_no_file [of lib w cfg tok org] run_steps_structure [of lib w cfg tok org c]
        run_steps_content [of lib w cfg tok org c] run_steps_commit [of lib w cfg tok org c]
      by (intro conjI impI) simp_all
  qed
  have zero: "exit_code lib w cfg = 0 \<longleftrightarrow> s2 \<and> s3 = Inr True \<and> s4 = Inr True"
    if cred: "credentials w = Some (tok, org)" and s1: "s1 = (True, Some c)"
  proof (cases "s2 \<and> s3 = Inr True")
    case True
    with some [OF cred] s1 have "fst run = s4" by simp
    with True code(1) show ?thesis by simp
  next
    case False
    with some [OF cred] s1 have "fst run \<noteq> Inr True" by auto
    with False code(1) show ?thesis by auto
  qed
  from code none some zero show ?thesis by simp
qed

theorem steps_in_order_and_exit_code_witness:
  "exit_code sample_lib sample_world sample_config = 0 \<and>
   steps_run (snd (run_verification sample_lib sample_world sample_config)) = [1, 2, 3, 4] \<and>
   exit_code sample_lib (answering (Http_Response 404 None)) sample_config = 1 \<and>
   steps_run (snd (run_verification sample_lib (answering (Http_Response 404 None)) sample_config)) =
     [1] \<and>
   exit_code sample_lib sample_world config_missing_structure = 1 \<and>
   steps_run (snd (run_verification sample_lib sample_world config_missing_structure)) = [1, 2] \<and>
   fst (run_verification sample_lib sample_world config_broken_rule) = Inl ReError \<and>
   exit_code sample_lib sample_world config_broken_rule = 1 \<and>
   steps_run (snd (run_verification sample_lib sample_world config_broken_rule)) = [1, 2, 3] \<and>
   exit_code sample_lib sample_world config_old_commit = 1 \<and>
   steps_run (snd (run_verification sample_lib sample_world config_old_commit)) = [1, 2, 3, 4] \<and>
   exit_code sample_lib no_environ sample_config = 1 \<and>
   steps_run (snd (run_verification sample_lib no_environ sample_config)) = []"
proof -
  let ?tok = "ascii ''secret''" and ?org = "ascii ''acme''" and ?hi = "ascii ''hi''"
  let ?hdrs = "build_headers ?tok" and ?repo = "ascii ''demo''"
  let ?gone = "answering (Http_Response 404 None)"
  have cred: "credentials sample_world = Some (?tok, ?org)"
    "credentials ?gone = Some (?tok, ?org)" "credentials no_environ = None"
    by (simp_all add: credentials_def sample_world_def answering_def sample_environ_def
        no_environ_def ascii_def)
  have repo: "target_repo sample_config = ?repo" "target_repo config_missing_structure = ?repo"
    "target_repo config_broken_rule = ?repo" "target_repo config_old_commit = ?repo"
    by (simp_all add: sample_config_def config_missing_structure_def config_broken_rule_def
        config_old_commit_def)
  have existence_ok:
    "fst (verify_file_existence sample_lib sample_world sample_config ?hdrs ?org ?repo) =
       (True, Some ?hi)"
    "fst (verify_file_existence sample_lib sample_world config_missing_structure ?hdrs ?org ?repo) =
       (True, Some ?hi)"
    "fst (verify_file_existence sample_lib sample_world config_broken_rule ?hdrs ?org ?repo) =
       (True, Some ?hi)"
    "fst (verify_file_existence sample_lib sample_world config_old_commit ?hdrs ?org ?repo) =
       (True, Some ?hi)"
    "fst (verify_file_existence sample_lib ?gone sample_config ?hdrs ?org ?repo) = (False, None)"
    by (simp_all add: verify_file_existence_def get_repo_file_content_def call_github_api_def
        api_url_def Let_def sample_config_def config_missing_structure_def config_broken_rule_def
        config_old_commit_def sample_world_def answering_def sample_lib_def ascii_def)
  have structure_ok:
    "fst (verify_file_structure ?hi sample_config)"
    "\<not> fst (verify_file_structure ?hi config_missing_structure)"
    "fst (verify_file_structure ?hi config_broken_rule)"
    "fst (verify_file_structure ?hi config_old_commit)"
    by (simp_all add: verify_file_structure_def Let_def sample_config_def
        config_missing_structure_def config_broken_rule_def config_old_commit_def ascii_def)
  have accuracy_ok:
    "fst (verify_content_accuracy sample_lib ?hi sample_config) = Inr True"
    "fst (verify_content_accuracy sample_lib ?hi config_broken_rule) = Inl ReError"
    "fst (verify_content_accuracy sample_lib ?hi config_old_commit) = Inr True"
    by (simp_all add: verify_content_accuracy_def rule_matched_def split_lines_def Let_def
        sample_config_def config_broken_rule_def config_old_commit_def greeting_rule_def
        broken_rule_def sample_lib_def plain_char_def ascii_digit_def ascii_def)
  have record_ok:
    "fst (verify_commit_record sample_lib sample_world sample_config ?hdrs ?org ?repo) = Inr True"
    "fst (verify_commit_record sample_lib sample_world config_old_commit ?hdrs ?org ?repo) =
       Inr False"
    by (simp_all add: verify_commit_record_def search_commits_def call_github_api_def api_url_def
        py_str_int_def nat_digits.simps Let_def sample_config_def config_old_commit_def
        report_rule_def initial_rule_def sample_world_def sample_history_def commit_obj_def
        sample_lib_def plain_char_def ascii_digit_def ascii_lower_def ascii_def)
  note facts = cred repo existence_ok structure_ok accuracy_ok record_ok
  have "exit_code sample_lib sample_world sample_config = 0 \<and>
      steps_run (snd (run_verification sample_lib sample_world sample_config)) = [1, 2, 3, 4]"
    using steps_in_order_and_exit_code [OF refl refl refl refl refl, where lib = sample_lib
        and w = sample_world and tok = ?tok and org = ?org and c = ?hi and cfg = sample_config]
    by (simp add: facts)
  moreover have "exit_code sample_lib ?gone sample_config = 1 \<and>
      steps_run (snd (run_verification sample_lib ?gone sample_config)) = [1]"
    using steps_in_order_and_exit_code [OF refl refl refl refl refl, where lib = sample_lib
        and w = ?gone and tok = ?tok and org = ?org and c = ?hi and cfg = sample_config]
    by (simp add: facts)
  moreover have "exit_code sample_lib sample_world config_missing_structure = 1 \<and>
      steps_run (snd (run_verification sample_lib sample_world config_missing_structure)) = [1, 2]"
    using steps_in_order_and_exit_code [OF refl refl refl refl refl, where lib = sample_lib
        and w = sample_world and tok = ?tok and org = ?org and c = ?hi
        and cfg = config_missing_structure]
    by (simp add: facts)
  moreover have "fst (run_verification sample_lib sample_world config_broken_rule) = Inl ReError \<and>
      exit_code sample_lib sample_world config_broken_rule = 1 \<and>
      steps_run (snd (run_verification sample_lib sample_world config_broken_rule)) = [1, 2, 3]"
    using steps_in_order_and_exit_code [OF refl refl refl refl refl, where lib = sample_lib
        and w = sample_world and tok = ?tok and org = ?org and c = ?hi and cfg = config_broken_rule]
    by (simp add: facts)
  moreover have "exit_code sample_lib sample_world config_old_commit = 1 \<and>
      steps_run (snd (run_verification sample_lib sample_world config_old_commit)) = [1, 2, 3, 4]"
    using steps_in_order_and_exit_code [OF refl refl refl refl refl, where lib = sample_lib
        and w = sample_world and tok = ?tok and org = ?org and c = ?hi and cfg = config_old_commit]
    by (simp add: facts)
  moreover have "exit_code sample_lib no_environ sample_config = 1 \<and>
      steps_run (snd (run_verification sample_lib no_environ sample_config)) = []"
    using steps_in_order_and_exit_code [OF refl refl refl refl refl, where lib = sample_lib
        and w = no_environ and tok = ?tok and org = ?org and c = ?hi and cfg = sample_config]
    by (simp add: facts)
  ultimately show ?thesis by simp
qed

end
